theory Spec2Isabelle
  imports Main "HOL-Library.Word" "HOL-Library.Signed_Division"
begin

unbundle bit_operations_syntax

section \<open>Bytes, little-endian integers and errors\<close>

type_synonym byte = "8 word"

text \<open>
  \<^verbatim>\<open>binary.LittleEndian.PutUint32\<close> and friends: \<open>le_bytes k n\<close> is the \<open>k\<close>-byte
  little-endian image of \<open>n\<close>, keeping only the low \<open>8 * k\<close> bits as the conversions
  \<^verbatim>\<open>uint32(len)\<close>, \<^verbatim>\<open>uint16(len)\<close> do; \<open>le_nat\<close> reads such an image back.
\<close>

fun le_bytes :: "nat \<Rightarrow> nat \<Rightarrow> byte list" where
  "le_bytes 0 n = []"
| "le_bytes (Suc k) n = of_nat (n mod 256) # le_bytes k (n div 256)"

fun le_nat :: "byte list \<Rightarrow> nat" where
  "le_nat [] = 0"
| "le_nat (b # bs) = unat b + 256 * le_nat bs"

text \<open>
  Go's run-time panics are values of the model, next to the errors the functions return:
  a slice expression out of range, \<^verbatim>\<open>make\<close> with a negative length, an index out of
  range, an integer division by zero.
\<close>

datatype panic = SliceBounds | MakeLen | IndexRange | DivideByZero

datatype error =
    QueueError string
  | EntryNotFound string
  | ConfigError string
  | Panic panic

abbreviation EmptyQueue :: error where
  "EmptyQueue \<equiv> QueueError ''Empty queue''"

abbreviation InvalidIndex :: error where
  "InvalidIndex \<equiv> QueueError ''Index must be grater than zero. Invalid index.''"

section \<open>queue/bytes\_queue.go\<close>

definition headerEntrySize :: nat where
  "headerEntrySize = 4"

definition leftMarginIndex :: nat where
  "leftMarginIndex = 1"

definition minimumEmptyBlobSize :: nat where
  "minimumEmptyBlobSize = 32 + headerEntrySize"

text \<open>
  The struct \<^verbatim>\<open>BytesQueue\<close>. The fields are Go \<^verbatim>\<open>int\<close>s that no operation makes
  negative (\<^verbatim>\<open>NewBytesQueue\<close> panics on a negative capacity, every update adds a
  length, assigns another field or the left margin, and \<^verbatim>\<open>count--\<close> runs only behind
  \<^verbatim>\<open>count == 0\<close>), so they are natural numbers here; the differences that can be
  negative are computed in \<open>int\<close>. The array always has \<^verbatim>\<open>len = cap\<close>, it comes from
  \<^verbatim>\<open>make([]byte, n)\<close>. The scratch \<^verbatim>\<open>headerBuffer\<close> only carries the four header
  bytes from \<^verbatim>\<open>PutUint32\<close> to \<^verbatim>\<open>copy\<close> inside \<^verbatim>\<open>push\<close> and is not a field here.
\<close>

record BytesQueue =
  array :: "byte list"
  capacity :: nat
  head :: nat
  tail :: nat
  count :: nat
  rightMargin :: nat
  verbose :: bool

definition NewBytesQueue :: "int \<Rightarrow> bool \<Rightarrow> error + BytesQueue" where
  "NewBytesQueue initialCapacity vb =
     (if initialCapacity < 0 then Inl (Panic MakeLen)
      else Inr \<lparr>array = replicate (nat initialCapacity) 0,
                capacity = nat initialCapacity,
                head = leftMarginIndex,
                tail = leftMarginIndex,
                count = 0,
                rightMargin = leftMarginIndex,
                verbose = vb\<rparr>)"

text \<open>
  The builtin \<^verbatim>\<open>copy(dst, src)\<close> copies \<^verbatim>\<open>min(len(dst), len(src))\<close> bytes and returns
  that number; it never fails and never grows \<^verbatim>\<open>dst\<close>.
\<close>

definition go_copy :: "byte list \<Rightarrow> byte list \<Rightarrow> byte list \<times> nat" where
  "go_copy dst src =
     (let n = min (length dst) (length src) in (take n src @ drop n dst, n))"

text \<open>
  \<^verbatim>\<open>q.tail += copy(q.array[q.tail:], data[:len])\<close>. The slice \<^verbatim>\<open>q.array[q.tail:]\<close>
  panics when the tail is beyond the array, \<^verbatim>\<open>data[:len]\<close> when \<^verbatim>\<open>len\<close> is beyond the data.
\<close>

definition copy :: "BytesQueue \<Rightarrow> byte list \<Rightarrow> nat \<Rightarrow> error + BytesQueue" where
  "copy q data len =
     (if length (array q) < tail q \<or> length data < len then Inl (Panic SliceBounds)
      else
        (case go_copy (drop (tail q) (array q)) (take len data) of
           (dst, n) \<Rightarrow>
             Inr (q\<lparr>array := take (tail q) (array q) @ dst, tail := tail q + n\<rparr>)))"

definition push :: "BytesQueue \<Rightarrow> byte list \<Rightarrow> nat \<Rightarrow> error + BytesQueue" where
  "push q data len =
     (case copy q (le_bytes 4 len) headerEntrySize of
        Inl e \<Rightarrow> Inl e
      | Inr q1 \<Rightarrow>
          (case copy q1 data len of
             Inl e \<Rightarrow> Inl e
           | Inr q2 \<Rightarrow>
               (let q3 = (if head q2 < tail q2 then q2\<lparr>rightMargin := tail q2\<rparr> else q2)
                in Inr (q3\<lparr>count := count q3 + 1\<rparr>))))"

text \<open>The log line under \<^verbatim>\<open>q.verbose\<close> has no effect on the queue and is left out.\<close>

definition allocateAdditionalMemory :: "BytesQueue \<Rightarrow> nat \<Rightarrow> error + BytesQueue" where
  "allocateAdditionalMemory q minimum =
     (let cap1 = (if capacity q < minimum then capacity q + minimum else capacity q);
          cap2 = cap1 * 2;
          oldArray = array q;
          q1 = q\<lparr>capacity := cap2, array := replicate cap2 0\<rparr>
      in if leftMarginIndex \<noteq> rightMargin q1 then
           (if length oldArray < rightMargin q1 then Inl (Panic SliceBounds)
            else
              (let q2 = q1\<lparr>array := fst (go_copy (array q1) (take (rightMargin q1) oldArray))\<rparr>
               in if tail q2 < head q2 then
                    (let emptyBlobLen = int (head q2) - int (tail q2) - int headerEntrySize
                     in if emptyBlobLen < 0 then Inl (Panic MakeLen)
                        else
                          (case push q2 (replicate (nat emptyBlobLen) 0) (nat emptyBlobLen) of
                             Inl e \<Rightarrow> Inl e
                           | Inr q3 \<Rightarrow>
                               Inr (q3\<lparr>head := leftMarginIndex, tail := rightMargin q3\<rparr>)))
                  else Inr q2))
         else Inr q1)"

definition availableSpaceAfterTail :: "BytesQueue \<Rightarrow> int" where
  "availableSpaceAfterTail q =
     (if head q \<le> tail q then int (capacity q) - int (tail q)
      else int (head q) - int (tail q) - int minimumEmptyBlobSize)"

definition availableSpaceBeforeHead :: "BytesQueue \<Rightarrow> int" where
  "availableSpaceBeforeHead q =
     (if head q \<le> tail q then int (head q) - int leftMarginIndex - int minimumEmptyBlobSize
      else int (head q) - int (tail q) - int minimumEmptyBlobSize)"

definition Push :: "BytesQueue \<Rightarrow> byte list \<Rightarrow> error + (nat \<times> BytesQueue)" where
  "Push q data =
     (let dataLen = length data in
      case (if availableSpaceAfterTail q < int (dataLen + headerEntrySize) then
              (if int (dataLen + headerEntrySize) \<le> availableSpaceBeforeHead q
               then Inr (q\<lparr>tail := leftMarginIndex\<rparr>)
               else allocateAdditionalMemory q dataLen)
            else Inr q) of
        Inl e \<Rightarrow> Inl e
      | Inr q1 \<Rightarrow>
          (let index = tail q1 in
           case push q1 data dataLen of
             Inl e \<Rightarrow> Inl e
           | Inr q2 \<Rightarrow> Inr (index, q2)))"

text \<open>
  \<^verbatim>\<open>peek\<close> reads the four header bytes at \<^verbatim>\<open>index\<close> and returns the block that
  follows. Both slice expressions are checked against the capacity of the array.
\<close>

definition peek :: "BytesQueue \<Rightarrow> nat \<Rightarrow> error + (byte list \<times> nat)" where
  "peek q index =
     (if length (array q) < index + headerEntrySize then Inl (Panic SliceBounds)
      else
        (let blockSize = le_nat (take headerEntrySize (drop index (array q)))
         in if length (array q) < index + headerEntrySize + blockSize
            then Inl (Panic SliceBounds)
            else Inr (take blockSize (drop (index + headerEntrySize) (array q)), blockSize)))"

definition Pop :: "BytesQueue \<Rightarrow> error + (byte list \<times> BytesQueue)" where
  "Pop q =
     (if count q = 0 then Inl EmptyQueue
      else
        (case peek q (head q) of
           Inl e \<Rightarrow> Inl e
         | Inr (data, blockSize) \<Rightarrow>
             (let q1 = q\<lparr>head := head q + headerEntrySize + blockSize, count := count q - 1\<rparr>;
                  q2 = (if head q1 = rightMargin q1 then
                          (let q3 = q1\<lparr>head := leftMarginIndex\<rparr>;
                               q4 = (if tail q3 = rightMargin q3
                                     then q3\<lparr>tail := leftMarginIndex\<rparr> else q3)
                           in q4\<lparr>rightMargin := tail q4\<rparr>)
                        else q1)
              in Inr (data, q2))))"

definition Clear :: "BytesQueue \<Rightarrow> BytesQueue" where
  "Clear q = q\<lparr>head := leftMarginIndex, tail := leftMarginIndex,
               rightMargin := leftMarginIndex, count := 0\<rparr>"

definition Peek :: "BytesQueue \<Rightarrow> error + byte list" where
  "Peek q =
     (if count q = 0 then Inl EmptyQueue
      else (case peek q (head q) of Inl e \<Rightarrow> Inl e | Inr (data, blockSize) \<Rightarrow> Inr data))"

definition Get :: "BytesQueue \<Rightarrow> int \<Rightarrow> error + byte list" where
  "Get q index =
     (if index \<le> 0 then Inl InvalidIndex
      else (case peek q (nat index) of Inl e \<Rightarrow> Inl e | Inr (data, blockSize) \<Rightarrow> Inr data))"

definition Capacity :: "BytesQueue \<Rightarrow> nat" where
  "Capacity q = capacity q"

definition Len :: "BytesQueue \<Rightarrow> nat" where
  "Len q = count q"

section \<open>The entry framing, the configuration and the hasher\<close>

text \<open>
  \<^verbatim>\<open>bigcache.go\<close> calls \<^verbatim>\<open>wrapEntry\<close>, \<^verbatim>\<open>readTimestampFromEntry\<close>,
  \<^verbatim>\<open>readHashFromEntry\<close>, \<^verbatim>\<open>readKeyFromEntry\<close>, \<^verbatim>\<open>readEntry\<close>,
  \<^verbatim>\<open>resetKeyFromEntry\<close>, \<^verbatim>\<open>headersSizeInBytes\<close>, \<^verbatim>\<open>notFound\<close>,
  \<^verbatim>\<open>newDefaultHasher\<close> and the types \<^verbatim>\<open>Config\<close>, \<^verbatim>\<open>Hasher\<close> and \<^verbatim>\<open>clock\<close>;
  their files are not among the sources. They are modelled from the specification, each
  marked so.
\<close>

text \<open>A Go string is a sequence of bytes; a key is a \<open>string\<close> and these are its bytes.\<close>

definition stringBytes :: "string \<Rightarrow> byte list" where
  "stringBytes s = map (\<lambda>c. of_nat (of_char c)) s"

definition bytesString :: "byte list \<Rightarrow> string" where
  "bytesString bs = map (\<lambda>b. char_of (unat b)) bs"

text \<open>
  Modelled from the spec: the sizes of the entry layout of section 3 (timestamp 8 bytes,
  hash 8 bytes, key length 2 bytes), whose constants are missing.
\<close>

definition timestampSizeInBytes :: nat where
  "timestampSizeInBytes = 8"

definition hashSizeInBytes :: nat where
  "hashSizeInBytes = 8"

definition keySizeInBytes :: nat where
  "keySizeInBytes = 2"

definition headersSizeInBytes :: nat where
  "headersSizeInBytes = timestampSizeInBytes + hashSizeInBytes + keySizeInBytes"

text \<open>
  Modelled from the spec: \<^verbatim>\<open>wrapEntry\<close> is missing. Section 3: little-endian timestamp
  at offset 0, hash at 8, key length at 16 as an unsigned 16-bit number, the key bytes at
  18, the value after them. The scratch buffer the blob is built in only saves an
  allocation and is not modelled.
\<close>

definition wrapEntry :: "64 word \<Rightarrow> 64 word \<Rightarrow> string \<Rightarrow> byte list \<Rightarrow> byte list" where
  "wrapEntry timestamp hashv key entry =
     le_bytes timestampSizeInBytes (unat timestamp) @ le_bytes hashSizeInBytes (unat hashv)
       @ le_bytes keySizeInBytes (length key) @ stringBytes key @ entry"

text \<open>
  Modelled from the spec: the readers of the layout are missing. A field that does not lie
  inside the blob cannot be read: the model panics there, as indexing a Go slice does.
\<close>

definition readTimestampFromEntry :: "byte list \<Rightarrow> error + 64 word" where
  "readTimestampFromEntry data =
     (if length data < timestampSizeInBytes then Inl (Panic IndexRange)
      else Inr (of_nat (le_nat (take timestampSizeInBytes data))))"

definition readHashFromEntry :: "byte list \<Rightarrow> error + 64 word" where
  "readHashFromEntry data =
     (if length data < timestampSizeInBytes + hashSizeInBytes then Inl (Panic IndexRange)
      else Inr (of_nat (le_nat (take hashSizeInBytes (drop timestampSizeInBytes data)))))"

definition readKeyLength :: "byte list \<Rightarrow> nat" where
  "readKeyLength data =
     le_nat (take keySizeInBytes (drop (timestampSizeInBytes + hashSizeInBytes) data))"

definition readKeyFromEntry :: "byte list \<Rightarrow> error + string" where
  "readKeyFromEntry data =
     (if length data < headersSizeInBytes then Inl (Panic IndexRange)
      else if length data < headersSizeInBytes + readKeyLength data
      then Inl (Panic SliceBounds)
      else Inr (bytesString (take (readKeyLength data) (drop headersSizeInBytes data))))"

definition readEntry :: "byte list \<Rightarrow> error + byte list" where
  "readEntry data =
     (if length data < headersSizeInBytes then Inl (Panic IndexRange)
      else if length data < headersSizeInBytes + readKeyLength data
      then Inl (Panic SliceBounds)
      else Inr (drop (headersSizeInBytes + readKeyLength data) data))"

text \<open>
  Modelled from the spec: \<^verbatim>\<open>resetKeyFromEntry\<close> is missing. Section 3: resetting a
  superseded entry zeroes its 64-bit hash field (bytes 8 to 16) in place. The result is
  the new content of the blob, of the same length; the caller writes it back where the
  blob lies in the array.
\<close>

definition resetKeyFromEntry :: "byte list \<Rightarrow> error + byte list" where
  "resetKeyFromEntry data =
     (if length data < timestampSizeInBytes + hashSizeInBytes then Inl (Panic IndexRange)
      else Inr (take timestampSizeInBytes data @ replicate hashSizeInBytes 0
                  @ drop (timestampSizeInBytes + hashSizeInBytes) data))"

text \<open>
  Modelled from the spec: \<^verbatim>\<open>Config\<close> is missing (section 6). \<open>Shards\<close>,
  \<open>MaxEntriesInWindow\<close> and \<open>MaxEntrySize\<close> are Go \<^verbatim>\<open>int\<close>s, 64-bit two's complement
  words read with \<open>sint\<close>; \<open>LifeWindow\<close> is kept in whole seconds, the value of
  \<^verbatim>\<open>uint64(config.LifeWindow.Seconds())\<close>; \<open>Hasher\<close> is \<open>None\<close> for \<^verbatim>\<open>nil\<close>. A hasher is
  its \<^verbatim>\<open>Sum64\<close>.
\<close>

type_synonym Hasher = "string \<Rightarrow> 64 word"

record Config =
  Shards :: "64 word"
  LifeWindow :: "64 word"
  MaxEntriesInWindow :: "64 word"
  MaxEntrySize :: "64 word"
  Verbose :: bool
  Hasher :: "Hasher option"

text \<open>
  Modelled from the spec: \<^verbatim>\<open>newDefaultHasher\<close> is missing; section 4.3 asks for a
  64-bit FNV-style hasher. This is FNV-1a.
\<close>

definition newDefaultHasher :: Hasher where
  "newDefaultHasher key =
     foldl (\<lambda>h b. (h XOR ucast b) * 1099511628211) 14695981039346656037 (stringBytes key)"

text \<open>Modelled from the spec: \<^verbatim>\<open>notFound\<close> is missing; the error carries the key.\<close>

definition notFound :: "string \<Rightarrow> error" where
  "notFound key = EntryNotFound key"

section \<open>bigcache.go\<close>

definition minimumEntriesInShard :: "64 word" where
  "minimumEntriesInShard = 10"

text \<open>
  The map \<^verbatim>\<open>map[uint64]uint32\<close> is a partial function; reading a missing key gives the
  zero value. The lock and the scratch \<^verbatim>\<open>entryBuffer\<close> of a shard are left out: the model
  is sequential, and the buffer only saves an allocation in \<^verbatim>\<open>wrapEntry\<close>.
\<close>

record cacheShard =
  hashmap :: "64 word \<rightharpoonup> 32 word"
  entries :: BytesQueue

definition mapIndex :: "(64 word \<rightharpoonup> 32 word) \<Rightarrow> 64 word \<Rightarrow> 32 word" where
  "mapIndex m k = (case m k of None \<Rightarrow> 0 | Some i \<Rightarrow> i)"

text \<open>
  The clock is not a field: each \<^verbatim>\<open>Set\<close> takes what \<^verbatim>\<open>c.clock.epoch()\<close> returns at that
  call as an argument.
\<close>

record BigCache =
  shards :: "cacheShard list"
  lifeWindow :: "64 word"
  hash :: Hasher
  config :: Config
  shardMask :: "64 word"
  shardSize :: "64 word"

definition isPowerOfTwo :: "64 word \<Rightarrow> bool" where
  "isPowerOfTwo number = ((number AND (number - 1)) = 0)"

definition max_int :: "64 word \<Rightarrow> 64 word \<Rightarrow> 64 word" where
  "max_int a b = (if b <s a then a else b)"

text \<open>
  \<^verbatim>\<open>newBigCache\<close>. After the test of the shard count come, in the order of the code:
  \<^verbatim>\<open>make([]*cacheShard, config.Shards)\<close>, which panics on a negative length; the division
  \<^verbatim>\<open>config.MaxEntriesInWindow/config.Shards\<close>, truncating and panicking on a zero
  divisor; and the loop, every round of which builds the same shard, with the queue
  (\<^verbatim>\<open>NewBytesQueue\<close> panics on a negative capacity) and the scratch buffer of
  \<^verbatim>\<open>config.MaxEntrySize+headersSizeInBytes\<close> bytes.
\<close>

definition newBigCache :: "Config \<Rightarrow> error + BigCache" where
  "newBigCache cfg =
     (if \<not> isPowerOfTwo (Shards cfg)
      then Inl (ConfigError ''Shards number must be power of two'')
      else
        (let hasher = (case Hasher cfg of None \<Rightarrow> newDefaultHasher | Some h \<Rightarrow> h);
             cfg1 = cfg\<lparr>Hasher := Some hasher\<rparr>
         in if Shards cfg1 <s 0 then Inl (Panic MakeLen)
            else if Shards cfg1 = 0 then Inl (Panic DivideByZero)
            else
              (let size = max_int (of_int (sint (MaxEntriesInWindow cfg1) sdiv sint (Shards cfg1)))
                            minimumEntriesInShard
               in case NewBytesQueue (sint (size * MaxEntrySize cfg1)) (Verbose cfg1) of
                    Inl e \<Rightarrow> Inl e
                  | Inr q \<Rightarrow>
                      (if MaxEntrySize cfg1 + of_nat headersSizeInBytes <s 0
                       then Inl (Panic MakeLen)
                       else Inr \<lparr>shards = replicate (nat (sint (Shards cfg1)))
                                           \<lparr>hashmap = Map.empty, entries = q\<rparr>,
                                 lifeWindow = LifeWindow cfg1,
                                 hash = hasher,
                                 config = cfg1,
                                 shardMask = Shards cfg1 - 1,
                                 shardSize = size\<rparr>))))"

text \<open>
  \<^verbatim>\<open>getShard\<close> returns a pointer into \<^verbatim>\<open>c.shards\<close>: here the position of the shard.
  Indexing beyond the slice panics.
\<close>

definition getShard :: "BigCache \<Rightarrow> 64 word \<Rightarrow> error + nat" where
  "getShard c hashedKey =
     (let i = unat (hashedKey AND shardMask c)
      in if i < length (shards c) then Inr i else Inl (Panic IndexRange))"

text \<open>
  \<^verbatim>\<open>Get\<close>, on the shard the key is routed to. The log line under \<^verbatim>\<open>Verbose\<close> is left
  out.
\<close>

definition shard_Get :: "cacheShard \<Rightarrow> 64 word \<Rightarrow> string \<Rightarrow> error + byte list" where
  "shard_Get shard hashedKey key =
     (let itemIndex = mapIndex (hashmap shard) hashedKey
      in if itemIndex = 0 then Inl (notFound key)
         else
           (case Get (entries shard) (uint itemIndex) of
              Inl e \<Rightarrow> Inl e
            | Inr wrappedEntry \<Rightarrow>
                (case readKeyFromEntry wrappedEntry of
                   Inl e \<Rightarrow> Inl e
                 | Inr entryKey \<Rightarrow>
                     if key \<noteq> entryKey then Inl (notFound key)
                     else readEntry wrappedEntry)))"

definition cache_Get :: "BigCache \<Rightarrow> string \<Rightarrow> error + byte list" where
  "cache_Get c key =
     (let hashedKey = hash c key
      in case getShard c hashedKey of
           Inl e \<Rightarrow> Inl e
         | Inr i \<Rightarrow> shard_Get (shards c ! i) hashedKey key)"

text \<open>
  \<^verbatim>\<open>Set\<close>, on the shard the key is routed to, in its three steps.

  First (the \<^verbatim>\<open>previousIndex\<close> block): the blob of the previous entry is a slice of the
  array of the queue, so \<^verbatim>\<open>resetKeyFromEntry\<close> writes into that array, at the blob's
  place behind its header. An error from \<^verbatim>\<open>Get\<close> skips the step; a panic does not.
\<close>

definition writeBlob :: "BytesQueue \<Rightarrow> nat \<Rightarrow> byte list \<Rightarrow> BytesQueue" where
  "writeBlob q pos blob =
     q\<lparr>array := take pos (array q) @ blob @ drop (pos + length blob) (array q)\<rparr>"

definition resetPrevious :: "cacheShard \<Rightarrow> 64 word \<Rightarrow> error + cacheShard" where
  "resetPrevious shard hashedKey =
     (let previousIndex = mapIndex (hashmap shard) hashedKey
      in if previousIndex \<noteq> 0 then
           (case Get (entries shard) (uint previousIndex) of
              Inl (Panic p) \<Rightarrow> Inl (Panic p)
            | Inl e \<Rightarrow> Inr shard
            | Inr previousEntry \<Rightarrow>
                (case resetKeyFromEntry previousEntry of
                   Inl e \<Rightarrow> Inl e
                 | Inr blob \<Rightarrow>
                     Inr (shard\<lparr>entries :=
                            writeBlob (entries shard) (unat previousIndex + headerEntrySize) blob\<rparr>)))
         else Inr shard)"

text \<open>
  Second (the \<^verbatim>\<open>Peek\<close> block): \<^verbatim>\<open>onEvict\<close> runs the closure when the oldest entry is
  older than the life window, in unsigned 64-bit arithmetic. The closure pops, ignoring
  what \<^verbatim>\<open>Pop\<close> returns, then reads the hash from the peeked blob, which \<^verbatim>\<open>Pop\<close> left
  in the array, and deletes it from the map. There is no loop.
\<close>

definition onEvict ::
  "64 word \<Rightarrow> byte list \<Rightarrow> 64 word \<Rightarrow> (cacheShard \<Rightarrow> error + cacheShard) \<Rightarrow> cacheShard
     \<Rightarrow> error + cacheShard" where
  "onEvict lw oldestEntry currentTimestamp evict shard =
     (case readTimestampFromEntry oldestEntry of
        Inl e \<Rightarrow> Inl e
      | Inr oldestTimestamp \<Rightarrow>
          if lw < currentTimestamp - oldestTimestamp then evict shard else Inr shard)"

definition evictOldest :: "64 word \<Rightarrow> 64 word \<Rightarrow> cacheShard \<Rightarrow> error + cacheShard" where
  "evictOldest lw currentTimestamp shard =
     (case Peek (entries shard) of
        Inl (Panic p) \<Rightarrow> Inl (Panic p)
      | Inl e \<Rightarrow> Inr shard
      | Inr oldestEntry \<Rightarrow>
          onEvict lw oldestEntry currentTimestamp
            (\<lambda>s. case (case Pop (entries s) of
                         Inl (Panic p) \<Rightarrow> Inl (Panic p)
                       | Inl e \<Rightarrow> Inr (entries s)
                       | Inr (data, q) \<Rightarrow> Inr q) of
                    Inl e \<Rightarrow> Inl e
                  | Inr q \<Rightarrow>
                      (case readHashFromEntry oldestEntry of
                         Inl e \<Rightarrow> Inl e
                       | Inr hashv \<Rightarrow>
                           Inr (s\<lparr>entries := q, hashmap := (hashmap s)(hashv := None)\<rparr>)))
            shard)"

text \<open>Third: the new blob is pushed and its index stored, cut to 32 bits.\<close>

definition shard_Set ::
  "64 word \<Rightarrow> cacheShard \<Rightarrow> 64 word \<Rightarrow> 64 word \<Rightarrow> string \<Rightarrow> byte list \<Rightarrow> error + cacheShard" where
  "shard_Set lw shard currentTimestamp hashedKey key entry =
     (case resetPrevious shard hashedKey of
        Inl e \<Rightarrow> Inl e
      | Inr s1 \<Rightarrow>
          (case evictOldest lw currentTimestamp s1 of
             Inl e \<Rightarrow> Inl e
           | Inr s2 \<Rightarrow>
               (let w = wrapEntry currentTimestamp hashedKey key entry
                in case Push (entries s2) w of
                     Inl e \<Rightarrow> Inl e
                   | Inr (index, q) \<Rightarrow>
                       Inr (s2\<lparr>entries := q,
                               hashmap := (hashmap s2)(hashedKey \<mapsto> of_nat index)\<rparr>))))"

definition cache_Set :: "BigCache \<Rightarrow> 64 word \<Rightarrow> string \<Rightarrow> byte list \<Rightarrow> error + BigCache" where
  "cache_Set c epoch key entry =
     (let hashedKey = hash c key
      in case getShard c hashedKey of
           Inl e \<Rightarrow> Inl e
         | Inr i \<Rightarrow>
             (case shard_Set (lifeWindow c) (shards c ! i) epoch hashedKey key entry of
                Inl e \<Rightarrow> Inl e
              | Inr shard \<Rightarrow> Inr (c\<lparr>shards := (shards c)[i := shard]\<rparr>)))"

definition cache_Clear :: "BigCache \<Rightarrow> BigCache" where
  "cache_Clear c =
     c\<lparr>shards := map (\<lambda>shard. shard\<lparr>entries := Clear (entries shard), hashmap := Map.empty\<rparr>)
                    (shards c)\<rparr>"

definition cache_Size :: "BigCache \<Rightarrow> 64 word" where
  "cache_Size c = foldl (\<lambda>cnt shard. cnt + of_nat (card (dom (hashmap shard)))) 0 (shards c)"

section \<open>Runs of the queue\<close>

text \<open>
  A client of the queue calls \<^verbatim>\<open>Push\<close>, \<^verbatim>\<open>Pop\<close> and \<^verbatim>\<open>Clear\<close> in some order.
  \<open>run\<close> performs such a sequence and collects what the \<^verbatim>\<open>Pop\<close>s return; it stops at
  the first error or panic. \<open>reachable\<close> are the states a queue can be in after
  \<^verbatim>\<open>NewBytesQueue\<close> and any number of these calls (\<^verbatim>\<open>Peek\<close>, \<^verbatim>\<open>Get\<close>, \<^verbatim>\<open>Len\<close> and
  \<^verbatim>\<open>Capacity\<close> do not change the queue).
\<close>

datatype queue_op = OpPush "byte list" | OpPop | OpClear

fun run :: "BytesQueue \<Rightarrow> queue_op list \<Rightarrow> error + (byte list list \<times> BytesQueue)" where
  "run q [] = Inr ([], q)"
| "run q (OpPush data # ops) =
     (case Push q data of Inl e \<Rightarrow> Inl e | Inr (index, q') \<Rightarrow> run q' ops)"
| "run q (OpPop # ops) =
     (case Pop q of
        Inl e \<Rightarrow> Inl e
      | Inr (data, q') \<Rightarrow>
          (case run q' ops of Inl e \<Rightarrow> Inl e | Inr (out, q'') \<Rightarrow> Inr (data # out, q'')))"
| "run q (OpClear # ops) = run (Clear q) ops"

inductive reachable :: "BytesQueue \<Rightarrow> bool" where
  reach_new: "NewBytesQueue initialCapacity vb = Inr q \<Longrightarrow> reachable q"
| reach_Push: "reachable q \<Longrightarrow> Push q data = Inr (index, q') \<Longrightarrow> reachable q'"
| reach_Pop: "reachable q \<Longrightarrow> Pop q = Inr (data, q') \<Longrightarrow> reachable q'"
| reach_Clear: "reachable q \<Longrightarrow> reachable (Clear q)"

text \<open>The queue \<^verbatim>\<open>NewBytesQueue(10, false)\<close> and the states two pushes take it through.\<close>

definition queue10 :: BytesQueue where
  "queue10 = \<lparr>array = replicate 10 0, capacity = 10, head = 1, tail = 1, count = 0,
              rightMargin = 1, verbose = False\<rparr>"

definition queue10_a :: BytesQueue where
  "queue10_a = \<lparr>array = [0, 5, 0, 0, 0, 1, 1, 1, 1, 1], capacity = 10, head = 1, tail = 10,
                count = 1, rightMargin = 10, verbose = False\<rparr>"

definition queue10_b :: BytesQueue where
  "queue10_b = \<lparr>array = [0, 5, 0, 0, 0, 1, 1, 1, 1, 1, 10, 0, 0, 0, 2, 2, 2, 2, 2, 2],
                capacity = 20, head = 1, tail = 20, count = 2, rightMargin = 20,
                verbose = False\<rparr>"

definition queue10_c :: BytesQueue where
  "queue10_c = \<lparr>array = [0, 5, 0, 0, 0, 1, 1, 1, 1, 1, 10, 0, 0, 0, 2, 2, 2, 2, 2, 2]
                          @ replicate 20 0,
                capacity = 40, head = 10, tail = 1, count = 0, rightMargin = 1,
                verbose = False\<rparr>"

section \<open>Handles are positive\<close>

lemma copy_fields:
  "copy q data len = Inr q' \<Longrightarrow>
     tail q \<le> tail q' \<and> head q' = head q \<and> rightMargin q' = rightMargin q \<and> count q' = count q
       \<and> capacity q' = capacity q"
  by (auto simp: copy_def go_copy_def Let_def split: if_splits)

lemma push_margins:
  assumes "push q data len = Inr q'" "1 \<le> tail q" "1 \<le> rightMargin q"
  shows "1 \<le> tail q' \<and> 1 \<le> rightMargin q'"
proof -
  from assms(1) obtain q1 q2 where c1: "copy q (le_bytes 4 len) headerEntrySize = Inr q1"
    and c2: "copy q1 data len = Inr q2"
    and q': "q' = (if head q2 < tail q2 then q2\<lparr>rightMargin := tail q2\<rparr> else q2)\<lparr>count :=
               count (if head q2 < tail q2 then q2\<lparr>rightMargin := tail q2\<rparr> else q2) + 1\<rparr>"
    by (auto simp: push_def Let_def split: sum.splits)
  from copy_fields[OF c1] copy_fields[OF c2] assms(2,3) show ?thesis
    by (auto simp: q')
qed

lemma allocate_margins:
  assumes "allocateAdditionalMemory q minimum = Inr q'" "1 \<le> tail q" "1 \<le> rightMargin q"
  shows "1 \<le> tail q' \<and> 1 \<le> rightMargin q'"
  using assms
  by (auto simp: allocateAdditionalMemory_def Let_def leftMarginIndex_def
           split: if_splits sum.splits dest!: push_margins)

lemma Push_margins:
  assumes "Push q data = Inr (index, q')" "1 \<le> tail q" "1 \<le> rightMargin q"
  shows "1 \<le> index \<and> 1 \<le> tail q' \<and> 1 \<le> rightMargin q'"
proof -
  from assms(1) obtain q1 where
    q1: "(if availableSpaceAfterTail q < int (length data + headerEntrySize) then
            (if int (length data + headerEntrySize) \<le> availableSpaceBeforeHead q
             then Inr (q\<lparr>tail := leftMarginIndex\<rparr>)
             else allocateAdditionalMemory q (length data))
          else Inr q) = Inr q1"
    and idx: "index = tail q1" and p: "push q1 data (length data) = Inr q'"
    by (auto simp: Push_def Let_def split: sum.splits)
  from q1 assms(2,3) have "1 \<le> tail q1 \<and> 1 \<le> rightMargin q1"
    by (auto simp: leftMarginIndex_def split: if_splits dest: allocate_margins)
  with push_margins[OF p] idx show ?thesis by simp
qed

lemma Pop_margins:
  assumes "Pop q = Inr (data, q')" "1 \<le> tail q" "1 \<le> rightMargin q"
  shows "1 \<le> tail q' \<and> 1 \<le> rightMargin q'"
  using assms
  by (auto simp: Pop_def Let_def leftMarginIndex_def split: if_splits sum.splits prod.splits)

lemma reachable_margins: "reachable q \<Longrightarrow> 1 \<le> tail q \<and> 1 \<le> rightMargin q"
proof (induction rule: reachable.induct)
  case (reach_new initialCapacity vb q)
  then show ?case
    by (auto simp: NewBytesQueue_def leftMarginIndex_def split: if_splits)
next
  case (reach_Push q data index q')
  then show ?case using Push_margins by blast
next
  case (reach_Pop q data q')
  then show ?case using Pop_margins by blast
next
  case (reach_Clear q)
  then show ?case by (simp add: Clear_def leftMarginIndex_def)
qed

lemma reachable_run:
  "reachable q \<Longrightarrow> run q ops = Inr (out, q') \<Longrightarrow> reachable q'"
proof (induction ops arbitrary: q out q')
  case Nil
  then show ?case by simp
next
  case (Cons op ops)
  show ?case
  proof (cases op)
    case (OpPush data)
    with Cons.prems obtain index q1 where "Push q data = Inr (index, q1)"
      and "run q1 ops = Inr (out, q')"
      by (auto split: sum.splits)
    with Cons.IH Cons.prems(1) show ?thesis
      by (blast intro: reach_Push)
  next
    case OpPop
    with Cons.prems obtain data q1 out1 where "Pop q = Inr (data, q1)"
      and "run q1 ops = Inr (out1, q')"
      by (auto split: sum.splits)
    with Cons.IH Cons.prems(1) show ?thesis
      by (blast intro: reach_Pop)
  next
    case OpClear
    with Cons.prems have "run (Clear q) ops = Inr (out, q')"
      by simp
    with Cons.IH Cons.prems(1) show ?thesis
      by (blast intro: reach_Clear)
  qed
qed

lemma NewBytesQueue_10: "NewBytesQueue 10 False = Inr queue10"
  by (simp add: NewBytesQueue_def queue10_def leftMarginIndex_def)

lemma reachable_queue10: "reachable queue10"
  by (rule reach_new[OF NewBytesQueue_10])

lemma Push_queue10: "Push queue10 (replicate 5 1) = Inr (1, queue10_a)"
  by code_simp

lemma Push_queue10_a: "Push queue10_a (replicate 10 2) = Inr (10, queue10_b)"
  by code_simp

text \<open>
  Claim C9. In every state of the queue reachable from \<^verbatim>\<open>NewBytesQueue\<close> by
  \<^verbatim>\<open>Push\<close>, \<^verbatim>\<open>Pop\<close> and \<^verbatim>\<open>Clear\<close>, the index that \<^verbatim>\<open>Push\<close> returns is at least the
  left margin 1, hence never 0.
\<close>

theorem Push_index_positive:
  assumes "reachable q" "Push q data = Inr (index, q')"
  shows "leftMarginIndex \<le> index \<and> index \<noteq> 0"
  using Push_margins[OF assms(2)] reachable_margins[OF assms(1)]
  by (simp add: leftMarginIndex_def)

theorem Push_index_positive_witness:
  "reachable queue10 \<and> Push queue10 (replicate 5 1) = Inr (1, queue10_a)
     \<and> leftMarginIndex \<le> (1::nat) \<and> (1::nat) \<noteq> 0"
  using Push_index_positive[OF reachable_queue10 Push_queue10] reachable_queue10 Push_queue10
  by blast

section \<open>Growth that leaves too little room\<close>

text \<open>
  Claim C1. The claim fails on the code: \<^verbatim>\<open>allocateAdditionalMemory\<close> is given the length
  of the data without the four header bytes and does not count the bytes already in
  use, so the grown array can be too short, and \<^verbatim>\<open>copy\<close> then stores only the bytes that
  fit. On \<^verbatim>\<open>NewBytesQueue(10, false)\<close>, pushing 5 bytes and then 10 bytes grows the
  array to 20 bytes; the second push returns the index 10 after storing 6 of its 10
  bytes, and \<^verbatim>\<open>Get(10)\<close> panics on the slice \<^verbatim>\<open>q.array[14:24]\<close>.
\<close>

theorem Push_truncates_after_growth:
  "NewBytesQueue 10 False = Inr queue10
     \<and> Push queue10 (replicate 5 1) = Inr (1, queue10_a)
     \<and> Push queue10_a (replicate 10 2) = Inr (10, queue10_b)
     \<and> Get queue10_b 10 = Inl (Panic SliceBounds)
     \<and> Get queue10_b 10 \<noteq> Inr (replicate 10 2)"
proof -
  have "Get queue10_b 10 = Inl (Panic SliceBounds)"
    by code_simp
  with NewBytesQueue_10 Push_queue10 Push_queue10_a show ?thesis
    by simp
qed

text \<open>
  Claim C8. The same defect breaks the bound on the gap. After the truncated push of
  claim C1 and one more push, three \<^verbatim>\<open>Pop\<close>s take the head over the right margin: the
  second reads the header of the truncated entry and moves the head to 24, which is the
  right margin, so head and tail go back to the left margin with one entry still
  counted; the third reads the stale header at index 1. The state reached has
  \<open>tail = 1 < head = 10\<close>, a gap of 9 bytes.
\<close>

theorem gap_below_minimum_reachable:
  "run queue10 [OpPush (replicate 5 1), OpPush (replicate 10 2), OpPush [], OpPop, OpPop, OpPop]
     = Inr ([replicate 5 1, replicate 6 2 @ replicate 4 0, replicate 5 1], queue10_c)
   \<and> reachable queue10_c
   \<and> tail queue10_c < head queue10_c
   \<and> head queue10_c - tail queue10_c < minimumEmptyBlobSize"
proof -
  have r: "run queue10 [OpPush (replicate 5 1), OpPush (replicate 10 2), OpPush [], OpPop, OpPop, OpPop]
     = Inr ([replicate 5 1, replicate 6 2 @ replicate 4 0, replicate 5 1], queue10_c)"
    by code_simp
  have "reachable queue10_c"
    by (rule reachable_run[OF reachable_queue10 r])
  moreover have "tail queue10_c < head queue10_c
      \<and> head queue10_c - tail queue10_c < minimumEmptyBlobSize"
    by (simp add: queue10_c_def minimumEmptyBlobSize_def headerEntrySize_def)
  ultimately show ?thesis using r by blast
qed

end
